theory Spec2Isabelle
  imports Complex_Main "HOL-Library.Word"
begin

section \<open>Background images of swaylock: mode parser, loader and fit-mode compositor\<close>

text \<open>
  The development follows \<^verbatim>\<open>background-image.c\<close> (the second document of
  \<^verbatim>\<open>src/include/cairo.h\<close>): \<^verbatim>\<open>parse_background_mode\<close>,
  \<^verbatim>\<open>load_background_image\<close> and \<^verbatim>\<open>render_background_image\<close>.
  The cairo drawing context, the MagickWand engine, the C library's files and the log sink are
  external collaborators; they are represented by the part of their state that the three
  functions act on.
\<close>

subsection \<open>Doubles\<close>

text \<open>
  A C \<^verbatim>\<open>double\<close> is idealised as a real number: rounding is not modelled, every finite
  operation is exact. A division whose divisor is zero does not trap in C, it yields an infinity
  or a NaN; the model writes \<open>None\<close> for such a value and for every value computed from one, so
  \<open>Some x\<close> is a finite double obtained through divisions by nonzero divisors only.
\<close>

type_synonym dbl = "real option"

text \<open>A C \<^verbatim>\<open>int\<close> is a 32-bit word read as two's complement (\<open>sint\<close>); its conversion to double is exact.\<close>

type_synonym c_int = "32 word"

definition dbl_of_int :: "c_int \<Rightarrow> dbl" where
  "dbl_of_int i = Some (real_of_int (sint i))"

definition ddiv :: "dbl \<Rightarrow> dbl \<Rightarrow> dbl" where
  "ddiv a b =
     (case a of None \<Rightarrow> None
      | Some x \<Rightarrow> (case b of None \<Rightarrow> None
                   | Some y \<Rightarrow> if y = 0 then None else Some (x / y)))"

definition dsub :: "dbl \<Rightarrow> dbl \<Rightarrow> dbl" where
  "dsub a b =
     (case a of None \<Rightarrow> None
      | Some x \<Rightarrow> (case b of None \<Rightarrow> None | Some y \<Rightarrow> Some (x - y)))"

definition dmul :: "dbl \<Rightarrow> dbl \<Rightarrow> dbl" where
  "dmul a b =
     (case a of None \<Rightarrow> None
      | Some x \<Rightarrow> (case b of None \<Rightarrow> None | Some y \<Rightarrow> Some (x * y)))"

text \<open>The comparison \<^verbatim>\<open>a > b\<close>; it is not followed when an operand is not finite.\<close>

definition dgt :: "dbl \<Rightarrow> dbl \<Rightarrow> bool option" where
  "dgt a b =
     (case a of None \<Rightarrow> None
      | Some x \<Rightarrow> (case b of None \<Rightarrow> None | Some y \<Rightarrow> Some (x > y)))"

text \<open>
  The cast \<^verbatim>\<open>(int)x\<close> of a double discards the fractional part, that is, it rounds
  towards zero. The conversion is undefined when the result does not fit a 32-bit
  \<^verbatim>\<open>int\<close>; the model gives \<open>None\<close> there.
\<close>

definition c_trunc :: "real \<Rightarrow> int" where
  "c_trunc x = (if 0 \<le> x then \<lfloor>x\<rfloor> else - \<lfloor>- x\<rfloor>)"

definition int_of_dbl :: "dbl \<Rightarrow> c_int option" where
  "int_of_dbl a =
     (case a of None \<Rightarrow> None
      | Some x \<Rightarrow> if - (2 ^ 31) \<le> c_trunc x \<and> c_trunc x < 2 ^ 31
                  then Some (word_of_int (c_trunc x)) else None)"

text \<open>An \<^verbatim>\<open>int\<close> argument passed where cairo expects a double.\<close>

definition dbl_of_int_opt :: "c_int option \<Rightarrow> dbl" where
  "dbl_of_int_opt i = (case i of None \<Rightarrow> None | Some k \<Rightarrow> dbl_of_int k)"

subsection \<open>The background modes\<close>

datatype background_mode =
    BACKGROUND_MODE_STRETCH
  | BACKGROUND_MODE_FILL
  | BACKGROUND_MODE_FIT
  | BACKGROUND_MODE_CENTER
  | BACKGROUND_MODE_TILE
  | BACKGROUND_MODE_SOLID_COLOR
  | BACKGROUND_MODE_INVALID

subsection \<open>The cairo drawing context\<close>

text \<open>
  An image surface is known to the compositor by its status and its size in pixels
  (\<^verbatim>\<open>cairo_image_surface_get_width\<close>, \<^verbatim>\<open>cairo_image_surface_get_height\<close>, both
  \<^verbatim>\<open>int\<close>).
\<close>

datatype cairo_status = CAIRO_STATUS_SUCCESS | CAIRO_STATUS_NO_MEMORY | CAIRO_STATUS_READ_ERROR

record cairo_surface =
  surface_status :: cairo_status
  surface_width :: c_int
  surface_height :: c_int

definition cairo_image_surface_get_width :: "cairo_surface \<Rightarrow> c_int" where
  "cairo_image_surface_get_width img = surface_width img"

definition cairo_image_surface_get_height :: "cairo_surface \<Rightarrow> c_int" where
  "cairo_image_surface_get_height img = surface_height img"

text \<open>
  The context holds a graphics state (the current transformation matrix and the source) and
  a stack of saved graphics states. \<^verbatim>\<open>cairo_save\<close> pushes a copy of the graphics state,
  \<^verbatim>\<open>cairo_restore\<close> pops it, \<^verbatim>\<open>cairo_scale\<close> multiplies the user-space axes of the
  matrix, \<^verbatim>\<open>cairo_set_source_surface\<close> and \<^verbatim>\<open>cairo_set_source\<close> replace the source and
  \<^verbatim>\<open>cairo_paint\<close> paints the source through the matrix. The field \<open>calls\<close> keeps every
  call with its arguments, in order.
\<close>

record cairo_matrix =
  xx :: dbl
  yx :: dbl
  xy :: dbl
  yy :: dbl
  x0 :: dbl
  y0 :: dbl

datatype cairo_extend = CAIRO_EXTEND_NONE | CAIRO_EXTEND_REPEAT

datatype cairo_source =
    DefaultSource
  | SurfaceSource cairo_surface dbl dbl
  | PatternSource cairo_surface cairo_extend

datatype cairo_call =
    Save
  | Restore
  | Scale dbl dbl
  | SetSourceSurface cairo_surface dbl dbl
  | SetSource cairo_surface cairo_extend
  | Paint

record cairo_t =
  ctm :: cairo_matrix
  source :: cairo_source
  saved :: "(cairo_matrix \<times> cairo_source) list"
  calls :: "cairo_call list"

definition cairo_save :: "cairo_t \<Rightarrow> cairo_t" where
  "cairo_save cr = cr\<lparr>saved := (ctm cr, source cr) # saved cr, calls := calls cr @ [Save]\<rparr>"

definition cairo_restore :: "cairo_t \<Rightarrow> cairo_t" where
  "cairo_restore cr =
     (case saved cr of
        [] \<Rightarrow> cr\<lparr>calls := calls cr @ [Restore]\<rparr>
      | g # gs \<Rightarrow> cr\<lparr>ctm := fst g, source := snd g, saved := gs, calls := calls cr @ [Restore]\<rparr>)"

definition matrix_scale :: "dbl \<Rightarrow> dbl \<Rightarrow> cairo_matrix \<Rightarrow> cairo_matrix" where
  "matrix_scale sx sy m =
     m\<lparr>xx := dmul sx (xx m), yx := dmul sx (yx m), xy := dmul sy (xy m), yy := dmul sy (yy m)\<rparr>"

definition cairo_scale :: "cairo_t \<Rightarrow> dbl \<Rightarrow> dbl \<Rightarrow> cairo_t" where
  "cairo_scale cr sx sy =
     cr\<lparr>ctm := matrix_scale sx sy (ctm cr), calls := calls cr @ [Scale sx sy]\<rparr>"

definition cairo_set_source_surface :: "cairo_t \<Rightarrow> cairo_surface \<Rightarrow> dbl \<Rightarrow> dbl \<Rightarrow> cairo_t" where
  "cairo_set_source_surface cr img x y =
     cr\<lparr>source := SurfaceSource img x y, calls := calls cr @ [SetSourceSurface img x y]\<rparr>"

definition cairo_set_source :: "cairo_t \<Rightarrow> cairo_surface \<Rightarrow> cairo_extend \<Rightarrow> cairo_t" where
  "cairo_set_source cr img ext =
     cr\<lparr>source := PatternSource img ext, calls := calls cr @ [SetSource img ext]\<rparr>"

definition cairo_paint :: "cairo_t \<Rightarrow> cairo_t" where
  "cairo_paint cr = cr\<lparr>calls := calls cr @ [Paint]\<rparr>"

subsection \<open>The fit-mode compositor\<close>

text \<open>
  \<^verbatim>\<open>render_background_image\<close>. The \<^verbatim>\<open>switch\<close> is \<open>render_switch\<close>, one equation per
  \<^verbatim>\<open>case\<close>, called between \<^verbatim>\<open>cairo_save\<close> and \<^verbatim>\<open>cairo_paint\<close>;
  \<^verbatim>\<open>assert(0)\<close> ends the process and is the error \<open>AssertionFailed\<close>. In FILL
  and FIT, when a ratio is not finite the comparison is not followed: both branches make the
  same two calls, and the model records them with arguments that are not followed.
\<close>

datatype render_error = AssertionFailed

fun render_switch ::
  "cairo_t \<Rightarrow> cairo_surface \<Rightarrow> background_mode \<Rightarrow> dbl \<Rightarrow> dbl \<Rightarrow> dbl \<Rightarrow> dbl \<Rightarrow> render_error + cairo_t"
where
  "render_switch cairo img BACKGROUND_MODE_STRETCH width height bw bh =
     Inr (cairo_set_source_surface
            (cairo_scale cairo (ddiv bw width) (ddiv bh height))
            img (Some 0) (Some 0))"
| "render_switch cairo img BACKGROUND_MODE_FILL width height bw bh =
     (let window_ratio = ddiv bw bh;
          bg_ratio = ddiv width height
      in case dgt window_ratio bg_ratio of
           Some True \<Rightarrow>
             (let scale = ddiv bw width
              in Inr (cairo_set_source_surface (cairo_scale cairo scale scale) img
                        (Some 0) (dsub (ddiv (ddiv bh (Some 2)) scale) (ddiv height (Some 2)))))
         | Some False \<Rightarrow>
             (let scale = ddiv bh height
              in Inr (cairo_set_source_surface (cairo_scale cairo scale scale) img
                        (dsub (ddiv (ddiv bw (Some 2)) scale) (ddiv width (Some 2))) (Some 0)))
         | None \<Rightarrow>
             Inr (cairo_set_source_surface (cairo_scale cairo None None) img None None))"
| "render_switch cairo img BACKGROUND_MODE_FIT width height bw bh =
     (let window_ratio = ddiv bw bh;
          bg_ratio = ddiv width height
      in case dgt window_ratio bg_ratio of
           Some True \<Rightarrow>
             (let scale = ddiv bh height
              in Inr (cairo_set_source_surface (cairo_scale cairo scale scale) img
                        (dsub (ddiv (ddiv bw (Some 2)) scale) (ddiv width (Some 2))) (Some 0)))
         | Some False \<Rightarrow>
             (let scale = ddiv bw width
              in Inr (cairo_set_source_surface (cairo_scale cairo scale scale) img
                        (Some 0) (dsub (ddiv (ddiv bh (Some 2)) scale) (ddiv height (Some 2)))))
         | None \<Rightarrow>
             Inr (cairo_set_source_surface (cairo_scale cairo None None) img None None))"
| "render_switch cairo img BACKGROUND_MODE_CENTER width height bw bh =
     Inr (cairo_set_source_surface cairo img
            (dbl_of_int_opt (int_of_dbl (dsub (ddiv bw (Some 2)) (ddiv width (Some 2)))))
            (dbl_of_int_opt (int_of_dbl (dsub (ddiv bh (Some 2)) (ddiv height (Some 2))))))"
| "render_switch cairo img BACKGROUND_MODE_TILE width height bw bh =
     Inr (cairo_set_source cairo img CAIRO_EXTEND_REPEAT)"
| "render_switch cairo img BACKGROUND_MODE_SOLID_COLOR width height bw bh = Inl AssertionFailed"
| "render_switch cairo img BACKGROUND_MODE_INVALID width height bw bh = Inl AssertionFailed"

definition render_background_image ::
  "cairo_t \<Rightarrow> cairo_surface \<Rightarrow> background_mode \<Rightarrow> c_int \<Rightarrow> c_int \<Rightarrow> render_error + cairo_t"
where
  "render_background_image cairo img mode buffer_width buffer_height =
     (let width = dbl_of_int (cairo_image_surface_get_width img);
          height = dbl_of_int (cairo_image_surface_get_height img)
      in case render_switch (cairo_save cairo) img mode width height
                (dbl_of_int buffer_width) (dbl_of_int buffer_height) of
           Inl e \<Rightarrow> Inl e
         | Inr cr \<Rightarrow> Inr (cairo_restore (cairo_paint cr)))"

text \<open>The modes that the compositor accepts.\<close>

definition valid_modes :: "background_mode list" where
  "valid_modes =
     [BACKGROUND_MODE_STRETCH, BACKGROUND_MODE_FILL, BACKGROUND_MODE_FIT,
      BACKGROUND_MODE_CENTER, BACKGROUND_MODE_TILE]"

text \<open>
  A call whose double arguments are all finite, each obtained through divisions by nonzero
  divisors only.
\<close>

fun finite_call :: "cairo_call \<Rightarrow> bool" where
  "finite_call (Scale sx sy) = (sx \<noteq> None \<and> sy \<noteq> None)"
| "finite_call (SetSourceSurface img x y) = (x \<noteq> None \<and> y \<noteq> None)"
| "finite_call Save = True"
| "finite_call Restore = True"
| "finite_call (SetSource img ext) = True"
| "finite_call Paint = True"

text \<open>A fresh context, the identity matrix and an image of a given size, for concrete runs.\<close>

definition identity_matrix :: cairo_matrix where
  "identity_matrix = \<lparr>xx = Some 1, yx = Some 0, xy = Some 0, yy = Some 1, x0 = Some 0, y0 = Some 0\<rparr>"

definition fresh_cairo :: cairo_t where
  "fresh_cairo = \<lparr>ctm = identity_matrix, source = DefaultSource, saved = [], calls = []\<rparr>"

definition image_of_size :: "c_int \<Rightarrow> c_int \<Rightarrow> cairo_surface" where
  "image_of_size w h =
     \<lparr>surface_status = CAIRO_STATUS_SUCCESS, surface_width = w, surface_height = h\<rparr>"

subsection \<open>The log\<close>

text \<open>
  \<^verbatim>\<open>swaylock_log\<close> (declared in \<^verbatim>\<open>log.h\<close>, which is not among the sources) appends one
  formatted message with its importance to the log; of the importances only
  \<^verbatim>\<open>LOG_ERROR\<close> is used here.
\<close>

datatype log_importance = LOG_ERROR | LOG_INFO | LOG_DEBUG

type_synonym messages = "(log_importance \<times> string) list"

definition swaylock_log :: "messages \<Rightarrow> log_importance \<Rightarrow> string \<Rightarrow> messages" where
  "swaylock_log lg importance msg = lg @ [(importance, msg)]"

subsection \<open>The mode parser\<close>

text \<open>
  \<^verbatim>\<open>parse_background_mode\<close>. The argument is the text of the C string, that is, the
  bytes before its terminating NUL, so \<^verbatim>\<open>strcmp(mode, t) == 0\<close> is equality with \<open>t\<close>.
\<close>

definition parse_background_mode :: "string \<Rightarrow> messages \<Rightarrow> background_mode \<times> messages" where
  "parse_background_mode mode lg =
     (if mode = ''stretch'' then (BACKGROUND_MODE_STRETCH, lg)
      else if mode = ''fill'' then (BACKGROUND_MODE_FILL, lg)
      else if mode = ''fit'' then (BACKGROUND_MODE_FIT, lg)
      else if mode = ''center'' then (BACKGROUND_MODE_CENTER, lg)
      else if mode = ''tile'' then (BACKGROUND_MODE_TILE, lg)
      else if mode = ''solid_color'' then (BACKGROUND_MODE_SOLID_COLOR, lg)
      else (BACKGROUND_MODE_INVALID,
            swaylock_log lg LOG_ERROR (''Unsupported background mode: '' @ mode)))"

definition mode_tokens :: "string list" where
  "mode_tokens = [''stretch'', ''fill'', ''fit'', ''center'', ''tile'', ''solid_color'']"

subsection \<open>The image-processing engine\<close>

text \<open>
  A wand holds one image: its colorspace and its pixels, each pixel four channel values
  (quanta) between 0 and \<^verbatim>\<open>QuantumRange\<close>. \<^verbatim>\<open>QuantumRange\<close> is a macro of the
  MagickWand headers fixed when the engine is built (65535 for 16-bit quanta); it is a
  parameter here. A pixel wand is one colour, four quanta as well.
\<close>

datatype ColorspaceType = CMYKColorspace | RGBColorspace | sRGBColorspace

record pixel =
  red :: real
  green :: real
  blue :: real
  alpha :: real

record wand_image =
  colorspace :: ColorspaceType
  pixels :: "pixel list"

text \<open>
  The conversion of a double to \<^verbatim>\<open>uint16_t\<close> discards the fractional part and is
  undefined when the result is not between 0 and 65535 (\<open>None\<close>).
\<close>

definition uint16_of_dbl :: "real \<Rightarrow> 16 word option" where
  "uint16_of_dbl x =
     (if 0 \<le> c_trunc x \<and> c_trunc x < 2 ^ 16 then Some (word_of_int (c_trunc x)) else None)"

text \<open>
  \<^verbatim>\<open>MagickColorizeImage(wand, colorize, blend)\<close> blends the colour \<open>colorize\<close> into every
  pixel, channel by channel; the share of the colour in a channel is the quantum of
  \<open>blend\<close> in that channel, as a percentage of \<^verbatim>\<open>QuantumRange\<close>.
\<close>

definition Colorize :: "real \<Rightarrow> real \<Rightarrow> real \<Rightarrow> real" where
  "Colorize px blend_percentage colorize =
     (px * (100 - blend_percentage) + colorize * blend_percentage) / 100"

definition colorize_pixel :: "nat \<Rightarrow> pixel \<Rightarrow> pixel \<Rightarrow> pixel \<Rightarrow> pixel" where
  "colorize_pixel QuantumRange colorize blend px =
     \<lparr>red = Colorize (red px) (100 * red blend / real QuantumRange) (red colorize),
      green = Colorize (green px) (100 * green blend / real QuantumRange) (green colorize),
      blue = Colorize (blue px) (100 * blue blend / real QuantumRange) (blue colorize),
      alpha = Colorize (alpha px) (100 * alpha blend / real QuantumRange) (alpha colorize)\<rparr>"

definition MagickColorizeImage :: "nat \<Rightarrow> wand_image \<Rightarrow> pixel \<Rightarrow> pixel \<Rightarrow> wand_image" where
  "MagickColorizeImage QuantumRange wand colorize blend =
     wand\<lparr>pixels := map (colorize_pixel QuantumRange colorize blend) (pixels wand)\<rparr>"

text \<open>
  What the files and the two libraries answer during a load is not computed by the loader;
  it is given by a \<open>world\<close>:
  \<^item> \<open>fopen_fails path\<close> is \<open>Some msg\<close> when \<^verbatim>\<open>fopen(path, "rb")\<close> returns NULL, with
    \<open>msg\<close> the text of \<^verbatim>\<open>strerror(errno)\<close>;
  \<^item> \<open>read_image path\<close> is what \<^verbatim>\<open>MagickReadImageFile\<close> makes of the file: the text of
    the exception, or the decoded image;
  \<^item> \<open>transform_colorspace im\<close> is the value returned by
    \<^verbatim>\<open>MagickTransformImageColorspace(wand, RGBColorspace)\<close> and the image it leaves in the
    wand;
  \<^item> \<open>gaussian_blur r im\<close> is the image left by \<^verbatim>\<open>MagickGaussianBlurImage(wand, r, r)\<close>;
  \<^item> \<open>png_stream im\<close> is the surface pointer that
    \<^verbatim>\<open>cairo_image_surface_create_from_png_stream\<close> returns for the temporary file that
    \<^verbatim>\<open>MagickWriteImageFile\<close> wrote from \<open>im\<close>; \<open>None\<close> is the NULL pointer.
\<close>

record world =
  fopen_fails :: "string \<Rightarrow> string option"
  read_image :: "string \<Rightarrow> string + wand_image"
  transform_colorspace :: "wand_image \<Rightarrow> bool \<times> wand_image"
  gaussian_blur :: "real \<Rightarrow> wand_image \<Rightarrow> wand_image"
  png_stream :: "wand_image \<Rightarrow> cairo_surface option"

text \<open>
  The resources of the process that the loader acquires and releases: the open
  \<^verbatim>\<open>FILE\<close> handles, the live wands and pixel wands, the number of calls of
  \<^verbatim>\<open>MagickWandGenesis\<close> and of \<^verbatim>\<open>MagickWandTerminus\<close>, and the log.
\<close>

datatype c_file = ImageFile string | TmpFile

record process =
  open_files :: "c_file list"
  magick_wands :: nat
  pixel_wands :: nat
  genesis_calls :: nat
  terminus_calls :: nat
  messages :: messages

definition fresh_process :: process where
  "fresh_process =
     \<lparr>open_files = [], magick_wands = 0, pixel_wands = 0, genesis_calls = 0,
      terminus_calls = 0, messages = []\<rparr>"

subsection \<open>The loader\<close>

definition cairo_status_to_string :: "cairo_status \<Rightarrow> string" where
  "cairo_status_to_string st =
     (case st of
        CAIRO_STATUS_SUCCESS \<Rightarrow> ''no error has occurred''
      | CAIRO_STATUS_NO_MEMORY \<Rightarrow> ''out of memory''
      | CAIRO_STATUS_READ_ERROR \<Rightarrow> ''error while reading from input stream'')"

text \<open>
  The opacity block of \<^verbatim>\<open>load_background_image\<close>: the level
  \<^verbatim>\<open>const uint16_t actualOpacity = QuantumRange * (*opacity / 100)\<close>, the two pixel wands
  and the call of \<^verbatim>\<open>MagickColorizeImage\<close>. The result is \<open>None\<close> when the conversion of
  the level is undefined.
\<close>

definition opacity_level :: "nat \<Rightarrow> real \<Rightarrow> 16 word option" where
  "opacity_level QuantumRange opacity = uint16_of_dbl (real QuantumRange * (opacity / 100))"

definition blend_wand :: "16 word \<Rightarrow> pixel" where
  "blend_wand actualOpacity =
     \<lparr>red = real (unat actualOpacity), green = real (unat actualOpacity),
      blue = real (unat actualOpacity), alpha = real (unat actualOpacity)\<rparr>"

definition color_wand :: "nat \<Rightarrow> pixel" where
  "color_wand QuantumRange = \<lparr>red = 0, green = 0, blue = 0, alpha = real QuantumRange\<rparr>"

definition apply_opacity :: "nat \<Rightarrow> real \<Rightarrow> wand_image \<Rightarrow> wand_image option" where
  "apply_opacity QuantumRange opacity wand =
     (if opacity > 0 then
        (case opacity_level QuantumRange opacity of
           None \<Rightarrow> None
         | Some actualOpacity \<Rightarrow>
             Some (MagickColorizeImage QuantumRange wand
                     (color_wand QuantumRange) (blend_wand actualOpacity)))
      else Some wand)"

text \<open>
  The part of the loader from the label \<^verbatim>\<open>end\<close> on: the wand is destroyed, then the
  surface pointer and the status of the surface decide the result.
\<close>

definition load_end :: "cairo_surface option \<Rightarrow> process \<Rightarrow> cairo_surface option \<times> process" where
  "load_end img p =
     (let p' = p\<lparr>magick_wands := magick_wands p - 1\<rparr>
      in case img of
           None \<Rightarrow> (None, p')
         | Some s \<Rightarrow>
             if surface_status s \<noteq> CAIRO_STATUS_SUCCESS
             then (None, p'\<lparr>messages := swaylock_log (messages p') LOG_ERROR
                     (''Failed to open background image in cairo: ''
                        @ cairo_status_to_string (surface_status s) @ ''.'')\<rparr>)
             else (Some s, p'))"

text \<open>
  \<^verbatim>\<open>load_background_image\<close>. The result is the returned pointer (\<open>None\<close> is NULL) and the
  process afterwards; the outer \<open>None\<close> is undefined behaviour in the opacity block. The
  values returned by the colorspace transform, the blur, the colorize and the write are not
  looked at by the source, and \<^verbatim>\<open>tmpfile\<close> is taken to succeed.
\<close>

definition load_background_image ::
  "nat \<Rightarrow> world \<Rightarrow> string \<Rightarrow> real \<Rightarrow> real \<Rightarrow> process \<Rightarrow> (cairo_surface option \<times> process) option"
where
  "load_background_image QuantumRange wld path blur opacity p =
     (case fopen_fails wld path of
        Some err \<Rightarrow>
          Some (None, p\<lparr>messages := swaylock_log (messages p) LOG_ERROR
                  (''Failed to open background image file: '' @ err @ ''.'')\<rparr>)
      | None \<Rightarrow>
          (let p1 = p\<lparr>open_files := ImageFile path # open_files p,
                      genesis_calls := Suc (genesis_calls p),
                      magick_wands := Suc (magick_wands p)\<rparr>
           in case read_image wld path of
                Inl exc \<Rightarrow>
                  Some (load_end None
                    (p1\<lparr>messages := swaylock_log (messages p1) LOG_ERROR
                          (''Failed to load background image: '' @ exc @ ''.'')\<rparr>))
              | Inr decoded \<Rightarrow>
                  (let wand1 = (if colorspace decoded = CMYKColorspace
                                then snd (transform_colorspace wld decoded) else decoded);
                       wand2 = (if blur > 0 then gaussian_blur wld blur wand1 else wand1)
                   in case apply_opacity QuantumRange opacity wand2 of
                        None \<Rightarrow> None
                      | Some wand3 \<Rightarrow>
                          (let p2 = (if opacity > 0
                                     then p1\<lparr>pixel_wands := pixel_wands p1 + 2\<rparr> else p1);
                               p3 = p2\<lparr>open_files := TmpFile # open_files p2\<rparr>
                           in Some (load_end (png_stream wld wand3) p3)))))"


text \<open>
  Three worlds for concrete runs. In each the file opens. In \<open>plain_world\<close> the image
  decodes to one opaque red sRGB pixel and comes back from the PNG round trip as a valid
  surface. In \<open>failing_transform_world\<close> the image decodes to a CMYK image and the
  conversion to RGB fails, leaving the image as it was. In \<open>undecodable_world\<close> the
  engine cannot decode the file.
\<close>

definition red_pixel :: pixel where
  "red_pixel = \<lparr>red = 65535, green = 0, blue = 0, alpha = 65535\<rparr>"

definition plain_world :: world where
  "plain_world =
     \<lparr>fopen_fails = (\<lambda>path. None),
      read_image = (\<lambda>path. Inr \<lparr>colorspace = sRGBColorspace, pixels = [red_pixel]\<rparr>),
      transform_colorspace = (\<lambda>im. (True, im\<lparr>colorspace := RGBColorspace\<rparr>)),
      gaussian_blur = (\<lambda>r im. im),
      png_stream = (\<lambda>im. Some (image_of_size 1 1))\<rparr>"



definition undecodable_world :: world where
  "undecodable_world =
     \<lparr>fopen_fails = (\<lambda>path. None),
      read_image = (\<lambda>path. Inl ''no decode delegate for this image format''),
      transform_colorspace = (\<lambda>im. (True, im)),
      gaussian_blur = (\<lambda>r im. im),
      png_stream = (\<lambda>im. None)\<rparr>"

section \<open>Properties\<close>

subsection \<open>Unfolding the model\<close>

lemmas cairo_defs =
  cairo_save_def cairo_scale_def cairo_set_source_surface_def cairo_set_source_def
  cairo_paint_def cairo_restore_def

lemmas render_defs =
  render_background_image_def Let_def dbl_of_int_def ddiv_def dsub_def dgt_def
  cairo_image_surface_get_width_def cairo_image_surface_get_height_def

subsection \<open>FILL\<close>



subsection \<open>FIT\<close>



subsection \<open>CENTER\<close>

text \<open>The cast to \<^verbatim>\<open>int\<close> of half the difference of two C ints is always defined.\<close>

lemma c_trunc_bounds:
  assumes "- (2 ^ 31) < x" "x < 2 ^ 31"
  shows "- (2 ^ 31) \<le> c_trunc x \<and> c_trunc x < 2 ^ 31"
proof (cases "0 \<le> x")
  case True
  then have "0 \<le> \<lfloor>x\<rfloor>" by simp
  moreover have "\<lfloor>x\<rfloor> < 2 ^ 31" using assms(2) by (simp add: floor_less_iff)
  ultimately show ?thesis using True by (simp add: c_trunc_def)
next
  case False
  then have "0 \<le> \<lfloor>- x\<rfloor>" by simp
  moreover have "\<lfloor>- x\<rfloor> < 2 ^ 31" using assms(1) by (simp add: floor_less_iff)
  ultimately have "- (2 ^ 31) \<le> - \<lfloor>- x\<rfloor> \<and> - \<lfloor>- x\<rfloor> < 2 ^ 31" by linarith
  then show ?thesis using False by (simp only: c_trunc_def if_False)
qed

lemma sint_real_bounds:
  fixes a :: c_int
  shows "- (2 ^ 31) \<le> real_of_int (sint a)" "real_of_int (sint a) < 2 ^ 31"
proof -
  have "- (2 ^ 31) \<le> sint a" "sint a < 2 ^ 31" using sint_ge [of a] sint_lt [of a] by simp_all
  then have "real_of_int (- (2 ^ 31)) \<le> real_of_int (sint a)"
    "real_of_int (sint a) < real_of_int (2 ^ 31)"
    by (simp_all only: of_int_le_iff of_int_less_iff)
  then show "- (2 ^ 31) \<le> real_of_int (sint a)" "real_of_int (sint a) < 2 ^ 31" by simp_all
qed

lemma center_offset_in_range:
  fixes a b :: c_int
  shows "int_of_dbl (dsub (ddiv (dbl_of_int a) (Some 2)) (ddiv (dbl_of_int b) (Some 2)))
     = Some (word_of_int (c_trunc (real_of_int (sint a) / 2 - real_of_int (sint b) / 2)))"
proof -
  have "- (2 ^ 31) < real_of_int (sint a) / 2 - real_of_int (sint b) / 2"
    "real_of_int (sint a) / 2 - real_of_int (sint b) / 2 < 2 ^ 31"
    using sint_real_bounds [of a] sint_real_bounds [of b] by linarith+
  from c_trunc_bounds [OF this] show ?thesis
    by (simp add: int_of_dbl_def dsub_def ddiv_def dbl_of_int_def)
qed

lemma sint_word_of_int32:
  assumes "- (2 ^ 31) \<le> k" "k < 2 ^ 31"
  shows "sint (word_of_int k :: c_int) = k"
  using assms by (simp add: sint_sbintrunc' signed_take_bit_int_eq_self)

lemma center_arg:
  fixes a b :: c_int
  shows "dbl_of_int_opt (int_of_dbl (dsub (ddiv (dbl_of_int a) (Some 2)) (ddiv (dbl_of_int b) (Some 2))))
     = Some (real_of_int (c_trunc (real_of_int (sint a) / 2 - real_of_int (sint b) / 2)))"
proof -
  have "- (2 ^ 31) < real_of_int (sint a) / 2 - real_of_int (sint b) / 2"
    "real_of_int (sint a) / 2 - real_of_int (sint b) / 2 < 2 ^ 31"
    using sint_real_bounds [of a] sint_real_bounds [of b] by linarith+
  from c_trunc_bounds [OF this]
  have "sint (word_of_int (c_trunc (real_of_int (sint a) / 2 - real_of_int (sint b) / 2)) :: c_int)
        = c_trunc (real_of_int (sint a) / 2 - real_of_int (sint b) / 2)"
    by (intro sint_word_of_int32) simp_all
  then show ?thesis
    by (simp only: center_offset_in_range) (simp add: dbl_of_int_opt_def dbl_of_int_def)
qed

lemma render_center_run:
  "render_background_image cairo img BACKGROUND_MODE_CENTER bw bh =
     Inr (cairo\<lparr>calls := calls cairo @
        [Save,
         SetSourceSurface img
           (Some (real_of_int (c_trunc (real_of_int (sint bw) / 2
                                        - real_of_int (sint (surface_width img)) / 2))))
           (Some (real_of_int (c_trunc (real_of_int (sint bh) / 2
                                        - real_of_int (sint (surface_height img)) / 2)))),
         Paint, Restore]\<rparr>)"
  by (simp add: render_background_image_def Let_def center_arg cairo_defs
      cairo_image_surface_get_width_def cairo_image_surface_get_height_def)

text \<open>
  Claim C3, as amended. For every image and every buffer, rendering in CENTER mode makes no
  scale call and places the image at the offsets \<open>(int)(bw / 2 - w / 2)\<close> and
  \<open>(int)(bh / 2 - h / 2)\<close>; the cast rounds towards zero, so an offset is the floor of the
  difference when the difference is not negative and its ceiling when it is negative (an
  image larger than the buffer). A buffer of 101 by 101 with an image of 50 by 50 gives the
  offset (25, 25).
\<close>

theorem render_center_truncates:
  "let w = real_of_int (sint (surface_width img));
       h = real_of_int (sint (surface_height img));
       dx = real_of_int (sint bw) / 2 - w / 2;
       dy = real_of_int (sint bh) / 2 - h / 2
   in render_background_image cairo img BACKGROUND_MODE_CENTER bw bh =
        Inr (cairo\<lparr>calls := calls cairo @
               [Save,
                SetSourceSurface img (Some (real_of_int (c_trunc dx))) (Some (real_of_int (c_trunc dy))),
                Paint, Restore]\<rparr>)
      \<and> c_trunc dx = (if 0 \<le> dx then \<lfloor>dx\<rfloor> else \<lceil>dx\<rceil>)
      \<and> c_trunc dy = (if 0 \<le> dy then \<lfloor>dy\<rfloor> else \<lceil>dy\<rceil>)"
  using render_center_run [of cairo img bw bh]
  by (simp add: Let_def c_trunc_def ceiling_def)

theorem render_center_truncates_witness:
  "render_background_image fresh_cairo (image_of_size 50 50) BACKGROUND_MODE_CENTER 101 101 =
     Inr (fresh_cairo\<lparr>calls :=
            [Save, SetSourceSurface (image_of_size 50 50) (Some 25) (Some 25), Paint, Restore]\<rparr>)"
  using render_center_truncates [of "image_of_size 50 50" 101 101 fresh_cairo]
  by (simp add: Let_def image_of_size_def fresh_cairo_def c_trunc_def ceiling_def)

text \<open>
  Claim C3, as stated, fails for an image larger than the buffer by an odd number of pixels:
  with a buffer of 100 by 100 and an image of 101 by 101 the difference is \<open>- 1 / 2\<close>, its
  floor is \<open>- 1\<close>, and the offset passed to cairo is 0.
\<close>

theorem render_center_floor_counterexample:
  "render_background_image fresh_cairo (image_of_size 101 101) BACKGROUND_MODE_CENTER 100 100 =
     Inr (fresh_cairo\<lparr>calls :=
            [Save, SetSourceSurface (image_of_size 101 101) (Some 0) (Some 0), Paint, Restore]\<rparr>)
   \<and> \<lfloor>real_of_int (sint (100 :: c_int)) / 2
        - real_of_int (sint (surface_width (image_of_size 101 101))) / 2\<rfloor> = - 1"
  using render_center_run [of fresh_cairo "image_of_size 101 101" 100 100]
  by (simp add: image_of_size_def fresh_cairo_def c_trunc_def)

subsection \<open>The save/restore bracket\<close>

lemma render_switch_frame:
  "render_switch cr img mode w h bw bh = Inr cr' \<Longrightarrow> saved cr' = saved cr"
  by (cases mode)
     (auto simp: Let_def cairo_set_source_surface_def cairo_scale_def cairo_set_source_def
           split: option.splits bool.splits)

lemma render_switch_calls:
  "render_switch cr img mode w h bw bh = Inr cr' \<Longrightarrow>
     \<exists>ops. calls cr' = calls cr @ ops \<and> Save \<notin> set ops \<and> Restore \<notin> set ops"
  by (cases mode)
     (auto simp: Let_def cairo_set_source_surface_def cairo_scale_def cairo_set_source_def
           split: option.splits bool.splits)

lemma render_switch_total:
  "mode \<in> set valid_modes \<Longrightarrow> \<exists>cr'. render_switch cr img mode w h bw bh = Inr cr'"
  by (cases mode) (auto simp: valid_modes_def Let_def split: option.splits bool.splits)

text \<open>
  Claim C9. For every mode among STRETCH, FILL, FIT, CENTER and TILE, and every context,
  image and buffer size, rendering returns a context; the calls it made are one save, then
  calls that are neither save nor restore, then paint and one restore; and the transformation
  matrix and the stack of saved states of the returned context are those of the context before
  the call.
\<close>

theorem render_restores_transform:
  assumes "mode \<in> set valid_modes"
  shows "\<exists>cr ops. render_background_image cairo img mode buffer_width buffer_height = Inr cr
           \<and> calls cr = calls cairo @ [Save] @ ops @ [Paint, Restore]
           \<and> Save \<notin> set ops \<and> Restore \<notin> set ops
           \<and> ctm cr = ctm cairo \<and> saved cr = saved cairo"
proof -
  let ?w = "dbl_of_int (cairo_image_surface_get_width img)"
  let ?h = "dbl_of_int (cairo_image_surface_get_height img)"
  obtain c1 where c1: "render_switch (cairo_save cairo) img mode ?w ?h
      (dbl_of_int buffer_width) (dbl_of_int buffer_height) = Inr c1"
    using render_switch_total [OF assms] by blast
  from render_switch_frame [OF c1] have sv: "saved c1 = (ctm cairo, source cairo) # saved cairo"
    by (simp add: cairo_save_def)
  from render_switch_calls [OF c1] obtain ops where
    ops: "calls c1 = calls cairo @ [Save] @ ops" "Save \<notin> set ops" "Restore \<notin> set ops"
    by (auto simp: cairo_save_def)
  have "render_background_image cairo img mode buffer_width buffer_height
          = Inr (cairo_restore (cairo_paint c1))"
    by (simp add: render_background_image_def c1)
  moreover have "ctm (cairo_restore (cairo_paint c1)) = ctm cairo"
    and "saved (cairo_restore (cairo_paint c1)) = saved cairo"
    and "calls (cairo_restore (cairo_paint c1)) = calls cairo @ [Save] @ ops @ [Paint, Restore]"
    by (simp_all add: cairo_restore_def cairo_paint_def sv ops)
  ultimately show ?thesis using ops(2,3) by blast
qed

theorem render_restores_transform_witness:
  "BACKGROUND_MODE_STRETCH \<in> set valid_modes
   \<and> (\<exists>cr ops. render_background_image fresh_cairo (image_of_size 100 100)
                  BACKGROUND_MODE_STRETCH 300 150 = Inr cr
        \<and> calls cr = calls fresh_cairo @ [Save] @ ops @ [Paint, Restore]
        \<and> Save \<notin> set ops \<and> Restore \<notin> set ops
        \<and> ctm cr = ctm fresh_cairo \<and> saved cr = saved fresh_cairo)"
proof -
  have m: "BACKGROUND_MODE_STRETCH \<in> set valid_modes" by (simp add: valid_modes_def)
  from m render_restores_transform [OF m] show ?thesis by blast
qed

subsection \<open>Divisors\<close>

lemma calls_update_eq: "(cr\<lparr>calls := xs\<rparr> = cr\<lparr>calls := ys\<rparr>) = (xs = ys)"
  by (cases cr) simp

lemma render_fill_run:
  assumes "0 < sint (surface_width img)" "0 < sint (surface_height img)" "0 < sint bh"
  shows "render_background_image cairo img BACKGROUND_MODE_FILL bw bh =
     (if real_of_int (sint bw) / real_of_int (sint bh)
           > real_of_int (sint (surface_width img)) / real_of_int (sint (surface_height img))
      then Inr (cairo\<lparr>calls := calls cairo @
               [Save,
                Scale (Some (real_of_int (sint bw) / real_of_int (sint (surface_width img))))
                      (Some (real_of_int (sint bw) / real_of_int (sint (surface_width img)))),
                SetSourceSurface img (Some 0)
                  (Some (real_of_int (sint bh) / 2
                           / (real_of_int (sint bw) / real_of_int (sint (surface_width img)))
                         - real_of_int (sint (surface_height img)) / 2)),
                Paint, Restore]\<rparr>)
      else Inr (cairo\<lparr>calls := calls cairo @
               [Save,
                Scale (Some (real_of_int (sint bh) / real_of_int (sint (surface_height img))))
                      (Some (real_of_int (sint bh) / real_of_int (sint (surface_height img)))),
                SetSourceSurface img
                  (Some (real_of_int (sint bw) / 2
                           / (real_of_int (sint bh) / real_of_int (sint (surface_height img)))
                         - real_of_int (sint (surface_width img)) / 2))
                  (Some 0),
                Paint, Restore]\<rparr>))"
proof -
  define w h a b where "w = real_of_int (sint (surface_width img))"
    and "h = real_of_int (sint (surface_height img))"
    and "a = real_of_int (sint bw)" and "b = real_of_int (sint bh)"
  have pos: "0 < w" "0 < h" "0 < b"
    using assms unfolding w_def h_def b_def by (simp_all only: of_int_0_less_iff)
  have wide: "w / h < a / b \<longrightarrow> a \<noteq> 0"
  proof
    assume "w / h < a / b"
    moreover have "0 < w / h" using pos by simp
    ultimately have "0 < a / b" by linarith
    then show "a \<noteq> 0" by auto
  qed
  show ?thesis
    using pos wide unfolding w_def h_def a_def b_def
    by (simp add: render_defs cairo_defs)
qed

lemma render_fit_run:
  assumes "0 < sint (surface_width img)" "0 < sint (surface_height img)" "0 < sint bh"
    and "sint bw \<noteq> 0"
  shows "render_background_image cairo img BACKGROUND_MODE_FIT bw bh =
     (if real_of_int (sint bw) / real_of_int (sint bh)
           > real_of_int (sint (surface_width img)) / real_of_int (sint (surface_height img))
      then Inr (cairo\<lparr>calls := calls cairo @
               [Save,
                Scale (Some (real_of_int (sint bh) / real_of_int (sint (surface_height img))))
                      (Some (real_of_int (sint bh) / real_of_int (sint (surface_height img)))),
                SetSourceSurface img
                  (Some (real_of_int (sint bw) / 2
                           / (real_of_int (sint bh) / real_of_int (sint (surface_height img)))
                         - real_of_int (sint (surface_width img)) / 2))
                  (Some 0),
                Paint, Restore]\<rparr>)
      else Inr (cairo\<lparr>calls := calls cairo @
               [Save,
                Scale (Some (real_of_int (sint bw) / real_of_int (sint (surface_width img))))
                      (Some (real_of_int (sint bw) / real_of_int (sint (surface_width img)))),
                SetSourceSurface img (Some 0)
                  (Some (real_of_int (sint bh) / 2
                           / (real_of_int (sint bw) / real_of_int (sint (surface_width img)))
                         - real_of_int (sint (surface_height img)) / 2)),
                Paint, Restore]\<rparr>))"
proof -
  define w h a b where "w = real_of_int (sint (surface_width img))"
    and "h = real_of_int (sint (surface_height img))"
    and "a = real_of_int (sint bw)" and "b = real_of_int (sint bh)"
  have pos: "0 < w" "0 < h" "0 < b"
    using assms(1-3) unfolding w_def h_def b_def by (simp_all only: of_int_0_less_iff)
  have nz: "a \<noteq> 0"
    using assms(4) unfolding a_def by (simp only: of_int_eq_0_iff not_False_eq_True)
  show ?thesis
    using pos nz unfolding w_def h_def a_def b_def
    by (simp add: render_defs cairo_defs)
qed

text \<open>
  Claim C10, as stated, fails in FIT mode for a buffer of width 0: with an image of 1 by 1 and
  a buffer of height 1, all of width, height and buffer height are strictly positive, the
  scale is \<open>0 / 1 = 0\<close>, and the vertical offset divides by that scale.
\<close>

theorem render_fit_zero_width_counterexample:
  "0 < sint (surface_width (image_of_size 1 1)) \<and> 0 < sint (surface_height (image_of_size 1 1))
   \<and> 0 < sint (1 :: c_int)
   \<and> render_background_image fresh_cairo (image_of_size 1 1) BACKGROUND_MODE_FIT 0 1 =
       Inr (fresh_cairo\<lparr>calls :=
              [Save, Scale (Some 0) (Some 0),
               SetSourceSurface (image_of_size 1 1) (Some 0) None, Paint, Restore]\<rparr>)
   \<and> \<not> finite_call (SetSourceSurface (image_of_size 1 1) (Some 0) None)"
  by (simp add: render_defs cairo_defs image_of_size_def fresh_cairo_def)

text \<open>
  Claim C10, as amended. For every accepted mode, when the width and the height of the image
  and the height of the buffer are strictly positive and, in FIT mode, the width of the buffer
  is not zero, every division made by the compositor has a nonzero divisor: every argument of
  every call it makes is finite.
\<close>

theorem render_divisions_defined:
  assumes "mode \<in> set valid_modes"
    and "0 < sint (surface_width img)" "0 < sint (surface_height img)" "0 < sint bh"
    and "mode = BACKGROUND_MODE_FIT \<longrightarrow> sint bw \<noteq> 0"
  shows "\<exists>ops. render_background_image cairo img mode bw bh =
                 Inr (cairo\<lparr>calls := calls cairo @ ops\<rparr>)
           \<and> list_all finite_call ops"
proof -
  consider "mode = BACKGROUND_MODE_STRETCH" | "mode = BACKGROUND_MODE_FILL"
    | "mode = BACKGROUND_MODE_FIT" | "mode = BACKGROUND_MODE_CENTER" | "mode = BACKGROUND_MODE_TILE"
    using assms(1) by (auto simp: valid_modes_def)
  then show ?thesis
  proof cases
    case 1
    have "0 < real_of_int (sint (surface_width img))" "0 < real_of_int (sint (surface_height img))"
      using assms(2,3) by (simp_all only: of_int_0_less_iff)
    with 1 show ?thesis
      by (simp add: render_defs cairo_defs calls_update_eq)
  next
    case 2
    then show ?thesis
      using render_fill_run [OF assms(2-4), of cairo bw]
      by (simp add: calls_update_eq)
  next
    case 3
    with assms(5) have "sint bw \<noteq> 0" by blast
    from render_fit_run [OF assms(2-4) this, of cairo] 3 show ?thesis
      by (simp add: calls_update_eq)
  next
    case 4
    then show ?thesis using render_center_run [of cairo img bw bh] by (simp add: calls_update_eq)
  next
    case 5
    then show ?thesis by (simp add: render_defs cairo_defs calls_update_eq)
  qed
qed

theorem render_divisions_defined_witness:
  "BACKGROUND_MODE_FIT \<in> set valid_modes
   \<and> 0 < sint (surface_width (image_of_size 100 100))
   \<and> 0 < sint (surface_height (image_of_size 100 100)) \<and> 0 < sint (200 :: c_int)
   \<and> sint (100 :: c_int) \<noteq> 0
   \<and> (\<exists>ops. render_background_image fresh_cairo (image_of_size 100 100)
               BACKGROUND_MODE_FIT 100 200 =
                 Inr (fresh_cairo\<lparr>calls := calls fresh_cairo @ ops\<rparr>)
         \<and> list_all finite_call ops)"
  using render_divisions_defined [of BACKGROUND_MODE_FIT "image_of_size 100 100" 200 100 fresh_cairo]
  by (simp add: valid_modes_def image_of_size_def fresh_cairo_def)

subsection \<open>The mode parser\<close>

text \<open>
  Claim C7. The parser maps each of the six tokens \<open>stretch\<close>, \<open>fill\<close>, \<open>fit\<close>,
  \<open>center\<close>, \<open>tile\<close> and \<open>solid_color\<close>, compared case-sensitively, to its mode and logs
  nothing; for every other string it returns INVALID and appends exactly one error to the
  log. It returns a value for every string.
\<close>

theorem parse_background_mode_tokens:
  "parse_background_mode ''stretch'' lg = (BACKGROUND_MODE_STRETCH, lg)
   \<and> parse_background_mode ''fill'' lg = (BACKGROUND_MODE_FILL, lg)
   \<and> parse_background_mode ''fit'' lg = (BACKGROUND_MODE_FIT, lg)
   \<and> parse_background_mode ''center'' lg = (BACKGROUND_MODE_CENTER, lg)
   \<and> parse_background_mode ''tile'' lg = (BACKGROUND_MODE_TILE, lg)
   \<and> parse_background_mode ''solid_color'' lg = (BACKGROUND_MODE_SOLID_COLOR, lg)
   \<and> (mode \<notin> set mode_tokens \<longrightarrow>
        parse_background_mode mode lg =
          (BACKGROUND_MODE_INVALID, lg @ [(LOG_ERROR, ''Unsupported background mode: '' @ mode)]))"
  by (simp add: parse_background_mode_def mode_tokens_def swaylock_log_def)

theorem parse_background_mode_tokens_witness:
  "''Fill'' \<notin> set mode_tokens
   \<and> parse_background_mode ''Fill'' [] =
       (BACKGROUND_MODE_INVALID, [(LOG_ERROR, ''Unsupported background mode: Fill'')])"
  using parse_background_mode_tokens [of "[]" "''Fill''"]
  by (simp add: mode_tokens_def)

subsection \<open>The opacity block\<close>







subsection \<open>The colorspace conversion\<close>



subsection \<open>Resources\<close>

text \<open>
  Claim C5 on three loads, each in a process that holds no resource before. A load whose file
  opens but does not decode returns NULL and leaves the image file open. A load that succeeds
  leaves the image file and the temporary file open; with an opacity of 50 it also leaves the
  two pixel wands alive. The wand itself is destroyed in all three.
\<close>

theorem load_leaves_files_open:
  "load_background_image 65535 undecodable_world ''notes.txt'' 0 0 fresh_process =
     Some (None,
           fresh_process\<lparr>open_files := [ImageFile ''notes.txt''], genesis_calls := 1,
             messages := [(LOG_ERROR,
               ''Failed to load background image: no decode delegate for this image format.'')]\<rparr>)
   \<and> load_background_image 65535 plain_world ''wall.png'' 0 0 fresh_process =
       Some (Some (image_of_size 1 1),
             fresh_process\<lparr>open_files := [TmpFile, ImageFile ''wall.png''], genesis_calls := 1\<rparr>)
   \<and> load_background_image 65535 plain_world ''wall.png'' 0 50 fresh_process =
       Some (Some (image_of_size 1 1),
             fresh_process\<lparr>open_files := [TmpFile, ImageFile ''wall.png''], genesis_calls := 1,
               pixel_wands := 2\<rparr>)"
  by (simp add: load_background_image_def load_end_def apply_opacity_def Let_def
      opacity_level_def uint16_of_dbl_def c_trunc_def swaylock_log_def
      undecodable_world_def plain_world_def fresh_process_def image_of_size_def)

subsection \<open>Initialisation of the engine\<close>







end
